theory Spec2Isabelle
  imports Main
begin

section \<open>Values of the payment API\<close>

text \<open>
  The model covers \<^verbatim>\<open>src/app.py\<close>: the module-level start-up check (lines 17-22) and the
  \<^verbatim>\<open>/webhook\<close> route \<^verbatim>\<open>stripe_webhook\<close> (lines 154-186). Request bodies are byte strings
  (\<^verbatim>\<open>request.get_data()\<close>); a \<open>char\<close> is one byte.
\<close>

type_synonym bytes = string

text \<open>
  The event that \<^verbatim>\<open>stripe.Webhook.construct_event\<close> returns, and the JSON bodies that
  \<^verbatim>\<open>jsonify\<close> sends, are dictionary-shaped values. An object is an association list; a
  lookup takes the first binding of a key.
\<close>

datatype json =
    JNull
  | JBool bool
  | JNum int
  | JStr string
  | JArr "json list"
  | JObj "(string \<times> json) list"

text \<open>
  What the \<^verbatim>\<open>try\<close> block of \<^verbatim>\<open>stripe_webhook\<close> can raise: whatever the library call of
  line 167 raises (the library is not part of this repository, so its exceptions are a type
  parameter), and the errors of the subscripts \<^verbatim>\<open>event['type']\<close>, \<^verbatim>\<open>event['data']['object']\<close>
  and \<^verbatim>\<open>session['id']\<close>.
\<close>

datatype 'e exn =
    Raised 'e
  | KeyError string
  | TypeError

text \<open>
  \<^verbatim>\<open>v[k]\<close> with a string key: a dictionary without the key raises \<^verbatim>\<open>KeyError\<close>; a string,
  a list, a number, a boolean or \<^verbatim>\<open>None\<close> subscripted by a string raises \<^verbatim>\<open>TypeError\<close>.
\<close>

fun getitem :: "json \<Rightarrow> string \<Rightarrow> 'e exn + json" where
  "getitem (JObj kvs) k = (case map_of kvs k of None \<Rightarrow> Inl (KeyError k) | Some v \<Rightarrow> Inr v)"
| "getitem _ k = Inl TypeError"

text \<open>
  Python truthiness of a value that is a string or \<^verbatim>\<open>None\<close>, as \<^verbatim>\<open>if not x\<close> tests it:
  \<^verbatim>\<open>None\<close> and the empty string are falsy. \<open>truthy\<close> returns the string when it is truthy.
\<close>

fun truthy :: "string option \<Rightarrow> string option" where
  "truthy None = None"
| "truthy (Some []) = None"
| "truthy (Some (c # cs)) = Some (c # cs)"

section \<open>Requests, responses and effects\<close>

text \<open>
  \<open>get_data\<close> is \<^verbatim>\<open>request.get_data()\<close>, \<open>headers_get\<close> is \<^verbatim>\<open>request.headers.get\<close>, and an
  environment is \<^verbatim>\<open>os.getenv\<close>.
\<close>

record request =
  get_data :: bytes
  headers_get :: "string \<Rightarrow> string option"

type_synonym environ = "string \<Rightarrow> string option"

record response =
  status :: nat
  body :: json

text \<open>
  The calls to \<^verbatim>\<open>logger\<close>, one constructor for each call; the interpolated value of an
  f-string is the constructor's argument.
  \<^item> \<open>Error_api_key_not_set\<close>: line 21;
  \<^item> \<open>Warning_no_webhook_secret\<close>: line 163;
  \<^item> \<open>Info_payment_completed\<close>: line 172, with \<^verbatim>\<open>session['id']\<close>;
  \<^item> \<open>Info_subscription_created\<close>: line 177, with \<^verbatim>\<open>subscription['id']\<close>;
  \<^item> \<open>Info_unhandled_event_type\<close>: line 180, with \<^verbatim>\<open>event['type']\<close>;
  \<^item> \<open>Error_webhook\<close>: line 185, with the exception.
\<close>

datatype 'e log_entry =
    Error_api_key_not_set
  | Warning_no_webhook_secret
  | Info_payment_completed json
  | Info_subscription_created json
  | Info_unhandled_event_type json
  | Error_webhook "'e exn"

text \<open>
  The state a request can affect. The only effect in the source is logging. \<open>records\<close>
  stands for the system of record behind the service (the database the comment of line 173
  speaks of); its type is a parameter, and no statement of the source touches it.
\<close>

record ('e, 'r) world =
  log :: "'e log_entry list"
  records :: 'r

definition logger :: "'e log_entry \<Rightarrow> ('e, 'r) world \<Rightarrow> ('e, 'r) world" where
  "logger entry w = w\<lparr>log := log w @ [entry]\<rparr>"

text \<open>\<^verbatim>\<open>jsonify({'received': True})\<close> (status 200) and \<^verbatim>\<open>jsonify({'error': 'Webhook failed'}), 400\<close>.\<close>

definition acknowledged :: response where
  "acknowledged = \<lparr>status = 200, body = JObj [(''received'', JBool True)]\<rparr>"

definition webhook_failed :: response where
  "webhook_failed = \<lparr>status = 400, body = JObj [(''error'', JStr ''Webhook failed'')]\<rparr>"

section \<open>The webhook route\<close>

text \<open>
  \<^verbatim>\<open>stripe.Webhook.construct_event(payload, sig_header, endpoint_secret)\<close> is a call into the
  Stripe library; the route is modelled for any such function, which either raises or
  returns the event.
\<close>

type_synonym 'e construct_event = "bytes \<Rightarrow> string option \<Rightarrow> string \<Rightarrow> 'e + json"

text \<open>
  Lines 158-167: the outcome of the verification step. \<open>Skipped\<close> is the early return of
  lines 162-164 (no secret configured), \<open>Failed\<close> an exception of line 167, and \<open>Verified\<close>
  carries the value bound to \<^verbatim>\<open>event\<close>.
\<close>

datatype 'e verification =
    Skipped
  | Failed 'e
  | Verified json

definition verification :: "'e construct_event \<Rightarrow> environ \<Rightarrow> request \<Rightarrow> 'e verification" where
  "verification construct_event env req =
     (let payload = get_data req;
          sig_header = headers_get req ''Stripe-Signature'';
          endpoint_secret = env ''STRIPE_WEBHOOK_SECRET''
      in case truthy endpoint_secret of
           None \<Rightarrow> Skipped
         | Some secret \<Rightarrow>
             (case construct_event payload sig_header secret of
                Inl e \<Rightarrow> Failed e
              | Inr event \<Rightarrow> Verified event))"

text \<open>
  Lines 170-180. The \<^verbatim>\<open>if\<close>/\<^verbatim>\<open>elif\<close> chain on \<^verbatim>\<open>event['type']\<close> is the handler registry:
  two kinds have a handler, every other value falls to the \<^verbatim>\<open>else\<close> branch. A handler
  is the body of its branch. The source reads \<^verbatim>\<open>event['type']\<close> again in the \<^verbatim>\<open>elif\<close>
  condition and in the f-string of line 180; the event is not changed in between, so each
  read gives what the first gave (or raises as the first did), and the model reads it once.
\<close>

datatype handler = Checkout_session_completed | Customer_subscription_created

definition registry :: "json \<Rightarrow> handler option" where
  "registry kind =
     (if kind = JStr ''checkout.session.completed'' then Some Checkout_session_completed
      else if kind = JStr ''customer.subscription.created'' then Some Customer_subscription_created
      else None)"

fun run_handler ::
  "handler \<Rightarrow> json \<Rightarrow> ('e, 'r) world \<Rightarrow> ('e exn + unit) \<times> ('e, 'r) world" where
  "run_handler Checkout_session_completed event w =
     (case getitem event ''data'' of
        Inl e \<Rightarrow> (Inl e, w)
      | Inr d \<Rightarrow>
          (case getitem d ''object'' of
             Inl e \<Rightarrow> (Inl e, w)
           | Inr session \<Rightarrow>
               (case getitem session ''id'' of
                  Inl e \<Rightarrow> (Inl e, w)
                | Inr i \<Rightarrow> (Inr (), logger (Info_payment_completed i) w))))"
| "run_handler Customer_subscription_created event w =
     (case getitem event ''data'' of
        Inl e \<Rightarrow> (Inl e, w)
      | Inr d \<Rightarrow>
          (case getitem d ''object'' of
             Inl e \<Rightarrow> (Inl e, w)
           | Inr subscription \<Rightarrow>
               (case getitem subscription ''id'' of
                  Inl e \<Rightarrow> (Inl e, w)
                | Inr i \<Rightarrow> (Inr (), logger (Info_subscription_created i) w))))"

definition handle_event ::
  "json \<Rightarrow> ('e, 'r) world \<Rightarrow> ('e exn + unit) \<times> ('e, 'r) world" where
  "handle_event event w =
     (case getitem event ''type'' of
        Inl e \<Rightarrow> (Inl e, w)
      | Inr kind \<Rightarrow>
          (case registry kind of
             Some h \<Rightarrow> run_handler h event w
           | None \<Rightarrow> (Inr (), logger (Info_unhandled_event_type kind) w)))"

text \<open>The \<^verbatim>\<open>try\<close> block, lines 158-182: a response, or the exception that left the block.\<close>

definition try_block ::
  "'e construct_event \<Rightarrow> environ \<Rightarrow> request \<Rightarrow> ('e, 'r) world
     \<Rightarrow> ('e exn + response) \<times> ('e, 'r) world" where
  "try_block construct_event env req w =
     (case verification construct_event env req of
        Skipped \<Rightarrow> (Inr acknowledged, logger Warning_no_webhook_secret w)
      | Failed e \<Rightarrow> (Inl (Raised e), w)
      | Verified event \<Rightarrow>
          (case handle_event event w of
             (Inl e, w') \<Rightarrow> (Inl e, w')
           | (Inr u, w') \<Rightarrow> (Inr acknowledged, w')))"

text \<open>The route: the \<^verbatim>\<open>try\<close> block and the \<^verbatim>\<open>except Exception\<close> clause of lines 184-186.\<close>

definition stripe_webhook ::
  "'e construct_event \<Rightarrow> environ \<Rightarrow> request \<Rightarrow> ('e, 'r) world \<Rightarrow> response \<times> ('e, 'r) world" where
  "stripe_webhook construct_event env req w =
     (case try_block construct_event env req w of
        (Inr resp, w') \<Rightarrow> (resp, w')
      | (Inl e, w') \<Rightarrow> (webhook_failed, logger (Error_webhook e) w'))"

text \<open>
  What a request reaches: the event bound at line 167, if any, and the handler whose
  branch is entered, if any.
\<close>

definition verified_event :: "'e construct_event \<Rightarrow> environ \<Rightarrow> request \<Rightarrow> json option" where
  "verified_event construct_event env req =
     (case verification construct_event env req of
        Verified event \<Rightarrow> Some event
      | Skipped \<Rightarrow> None
      | Failed e \<Rightarrow> None)"

definition invoked_handler :: "'e construct_event \<Rightarrow> environ \<Rightarrow> request \<Rightarrow> handler option" where
  "invoked_handler construct_event env req =
     (case verified_event construct_event env req of
        None \<Rightarrow> None
      | Some event \<Rightarrow>
          (case (getitem event ''type'' :: 'e exn + json) of
             Inl e \<Rightarrow> None
           | Inr kind \<Rightarrow> registry kind))"

section \<open>Module initialisation\<close>

text \<open>
  Lines 17-22 run when the module is loaded: \<^verbatim>\<open>stripe.api_key = os.getenv('STRIPE_SECRET_KEY')\<close>
  and \<^verbatim>\<open>if not stripe.api_key: ... raise ValueError("Stripe configuration missing")\<close>. The
  routes are registered by the decorators further down (lines 30, 39, 108, 154), so a module
  whose initialisation raised has none.
\<close>

datatype startup_error = ValueError string

record app_module =
  api_key :: string
  routes :: "string list"

definition module_init ::
  "environ \<Rightarrow> ('e, 'r) world \<Rightarrow> (startup_error + app_module) \<times> ('e, 'r) world" where
  "module_init env w =
     (case truthy (env ''STRIPE_SECRET_KEY'') of
        None \<Rightarrow> (Inl (ValueError ''Stripe configuration missing''), logger Error_api_key_not_set w)
      | Some key \<Rightarrow>
          (Inr \<lparr>api_key = key,
                routes = [''/'', ''/create-checkout'', ''/verify-payment'', ''/webhook'']\<rparr>, w))"

text \<open>
  A process that loads the module and then receives one webhook request: the request is
  served only by a module that was initialised.
\<close>

definition serve_webhook ::
  "'e construct_event \<Rightarrow> environ \<Rightarrow> request \<Rightarrow> ('e, 'r) world
     \<Rightarrow> (startup_error + response) \<times> ('e, 'r) world" where
  "serve_webhook construct_event env req w =
     (case module_init env w of
        (Inl err, w') \<Rightarrow> (Inl err, w')
      | (Inr m, w') \<Rightarrow>
          (case stripe_webhook construct_event env req w' of
             (resp, w'') \<Rightarrow> (Inr resp, w'')))"

section \<open>The signature verifier of the specification\<close>

text \<open>
  Modelled from the spec: the Signature Verifier behind \<^verbatim>\<open>stripe.Webhook.construct_event\<close>,
  which is library code and not in the sources. The spec leaves the keyed message
  authentication code, the syntax of the signature header and the parser of the event
  open; they are the fields of a scheme. \<open>parse_header\<close> gives the timestamp component, if
  the header has one, and the values embedded in the header.
\<close>

datatype verification_error =
    MissingSignature
  | MalformedSignature
  | SignatureMismatch
  | Expired
  | MisconfiguredSecret

record 'm signature_scheme =
  mac :: "string \<Rightarrow> bytes \<Rightarrow> 'm"
  parse_header :: "string \<Rightarrow> (nat option \<times> 'm list) option"
  decode :: "bytes \<Rightarrow> json"
  tolerance :: nat

text \<open>
  Modelled from the spec: "reject as expired when the timestamp is outside an allowed
  tolerance window", for a timestamp \<open>ts\<close> and the time \<open>now\<close> of the check; a header
  without a timestamp component never expires.
\<close>

definition expired :: "nat \<Rightarrow> nat \<Rightarrow> nat option \<Rightarrow> bool" where
  "expired tol now ts = (case ts of None \<Rightarrow> False | Some t \<Rightarrow> t + tol < now \<or> now + tol < t)"

text \<open>
  Modelled from the spec: "compute a keyed message authentication code over the raw body
  using the shared secret and compare it against the value(s) embedded in the signature
  header".
\<close>

definition signed :: "'m signature_scheme \<Rightarrow> string \<Rightarrow> bytes \<Rightarrow> string option \<Rightarrow> bool" where
  "signed sc secret rawBody signatureHeader =
     (case signatureHeader of
        None \<Rightarrow> False
      | Some h \<Rightarrow>
          (case parse_header sc h of
             None \<Rightarrow> False
           | Some (ts, sigs) \<Rightarrow> mac sc secret rawBody \<in> set sigs))"

text \<open>
  Modelled from the spec: \<^verbatim>\<open>verify(rawBody, signatureHeader, secret)\<close> of section 4.1, with
  its five errors; an absent secret is the empty string, and the body is parsed on success
  only.
\<close>

definition verify ::
  "'m signature_scheme \<Rightarrow> nat \<Rightarrow> bytes \<Rightarrow> string option \<Rightarrow> string
     \<Rightarrow> verification_error + json" where
  "verify sc now rawBody signatureHeader secret =
     (if secret = [] then Inl MisconfiguredSecret
      else case signatureHeader of
        None \<Rightarrow> Inl MissingSignature
      | Some h \<Rightarrow>
          (case parse_header sc h of
             None \<Rightarrow> Inl MalformedSignature
           | Some (ts, sigs) \<Rightarrow>
               if mac sc secret rawBody \<in> set sigs
               then (if expired (tolerance sc) now ts then Inl Expired
                     else Inr (decode sc rawBody))
               else Inl SignatureMismatch))"

section \<open>Properties of the webhook route\<close>

lemma verification_failed:
  assumes "env ''STRIPE_WEBHOOK_SECRET'' = Some (c # cs)"
    and "construct_event (get_data req) (headers_get req ''Stripe-Signature'') (c # cs) = Inl e"
  shows "verification construct_event env req = Failed e"
  using assms by (simp add: verification_def)

text \<open>
  Claim C2. A request whose signature verification fails (the library call of line 167
  raises, for whatever reason) produces no verified event and reaches no handler: the
  request is answered with status 400, and its only effect is the error line of the log.
\<close>

theorem failed_verification_reaches_no_handler:
  assumes "env ''STRIPE_WEBHOOK_SECRET'' = Some (c # cs)"
    and "construct_event (get_data req) (headers_get req ''Stripe-Signature'') (c # cs) = Inl e"
  shows "verified_event construct_event env req = None
       \<and> invoked_handler construct_event env req = None
       \<and> stripe_webhook construct_event env req w
           = (webhook_failed, w\<lparr>log := log w @ [Error_webhook (Raised e)]\<rparr>)"
proof -
  have "verification construct_event env req = Failed e"
    using assms by (rule verification_failed)
  then show ?thesis
    by (simp add: verified_event_def invoked_handler_def stripe_webhook_def try_block_def
        logger_def)
qed

theorem failed_verification_reaches_no_handler_witness:
  "verified_event (\<lambda>p s k. Inl ''bad signature'')
       (\<lambda>n. if n = ''STRIPE_WEBHOOK_SECRET'' then Some ''whsec'' else None)
       \<lparr>get_data = ''{}'', headers_get = (\<lambda>h. None)\<rparr> = None
   \<and> invoked_handler (\<lambda>p s k. Inl ''bad signature'')
       (\<lambda>n. if n = ''STRIPE_WEBHOOK_SECRET'' then Some ''whsec'' else None)
       \<lparr>get_data = ''{}'', headers_get = (\<lambda>h. None)\<rparr> = None
   \<and> stripe_webhook (\<lambda>p s k. Inl ''bad signature'')
       (\<lambda>n. if n = ''STRIPE_WEBHOOK_SECRET'' then Some ''whsec'' else None)
       \<lparr>get_data = ''{}'', headers_get = (\<lambda>h. None)\<rparr> \<lparr>log = [], records = ()\<rparr>
     = (webhook_failed, \<lparr>log = [Error_webhook (Raised ''bad signature'')], records = ()\<rparr>)"
  using failed_verification_reaches_no_handler
    [of "\<lambda>n. if n = ''STRIPE_WEBHOOK_SECRET'' then Some ''whsec'' else None"
        "CHR ''w''" "''hsec''" "\<lambda>p s k. Inl ''bad signature''"
        "\<lparr>get_data = ''{}'', headers_get = (\<lambda>h. None)\<rparr>" "''bad signature''"
        "\<lparr>log = [], records = ()\<rparr>"]
  by simp

lemma verification_skipped:
  assumes "env ''STRIPE_WEBHOOK_SECRET'' = None \<or> env ''STRIPE_WEBHOOK_SECRET'' = Some []"
  shows "verification construct_event env req = Skipped"
  using assms by (auto simp add: verification_def)

lemma verification_verified:
  assumes "env ''STRIPE_WEBHOOK_SECRET'' = Some (c # cs)"
    and "construct_event (get_data req) (headers_get req ''Stripe-Signature'') (c # cs) = Inr event"
  shows "verification construct_event env req = Verified event"
  using assms by (simp add: verification_def)

lemma stripe_webhook_failed:
  assumes "verification construct_event env req = Failed e"
  shows "stripe_webhook construct_event env req w
           = (webhook_failed, w\<lparr>log := log w @ [Error_webhook (Raised e)]\<rparr>)"
  using assms by (simp add: stripe_webhook_def try_block_def logger_def)

text \<open>
  Claim C1 (as the code has it). While the webhook secret is unset or empty, the route
  verifies nothing: it binds no event and enters no handler, logs a warning, and answers
  with the acknowledgment \<^verbatim>\<open>{'received': True}\<close>, status 200.
\<close>

theorem missing_secret_acknowledged_unverified:
  assumes "env ''STRIPE_WEBHOOK_SECRET'' = None \<or> env ''STRIPE_WEBHOOK_SECRET'' = Some []"
  shows "stripe_webhook construct_event env req w
           = (acknowledged, w\<lparr>log := log w @ [Warning_no_webhook_secret]\<rparr>)
       \<and> verified_event construct_event env req = None
       \<and> invoked_handler construct_event env req = None"
proof -
  have "verification construct_event env req = Skipped"
    using assms by (rule verification_skipped)
  then show ?thesis
    by (simp add: verified_event_def invoked_handler_def stripe_webhook_def try_block_def
        logger_def)
qed

theorem missing_secret_acknowledged_unverified_witness:
  "stripe_webhook (\<lambda>p s k. Inl ()) (\<lambda>n. None)
       \<lparr>get_data = ''forged'', headers_get = (\<lambda>h. None)\<rparr> \<lparr>log = [], records = ()\<rparr>
     = (acknowledged, \<lparr>log = [Warning_no_webhook_secret], records = ()\<rparr>)
   \<and> verified_event (\<lambda>p s k. Inl ()) (\<lambda>n. None)
       \<lparr>get_data = ''forged'', headers_get = (\<lambda>h. None)\<rparr> = None
   \<and> invoked_handler (\<lambda>p s k. Inl ()) (\<lambda>n. None)
       \<lparr>get_data = ''forged'', headers_get = (\<lambda>h. None)\<rparr> = None"
  using missing_secret_acknowledged_unverified
    [where env = "\<lambda>n. None" and construct_event = "\<lambda>p s k. Inl ()"
       and req = "\<lparr>get_data = ''forged'', headers_get = (\<lambda>h. None)\<rparr>"
       and w = "\<lparr>log = [], records = ()\<rparr>"]
  by simp

text \<open>
  Claim C1 as stated fails: with no secret in the environment, a request that carries no
  signature at all is acknowledged with status 200.
\<close>

theorem missing_secret_not_rejected:
  "fst (stripe_webhook (\<lambda>p s k. Inl ()) (\<lambda>n. None)
       \<lparr>get_data = ''forged'', headers_get = (\<lambda>h. None)\<rparr> \<lparr>log = [], records = ()\<rparr>)
     = \<lparr>status = 200, body = JObj [(''received'', JBool True)]\<rparr>"
  by (simp add: stripe_webhook_def try_block_def verification_def acknowledged_def)

text \<open>
  Claim C4. A verified event whose kind is neither \<^verbatim>\<open>checkout.session.completed\<close> nor
  \<^verbatim>\<open>customer.subscription.created\<close> is acknowledged with status 200 and the body
  \<^verbatim>\<open>{'received': True}\<close>; no handler is entered, and the kind is logged as unhandled.
\<close>

theorem unknown_kind_acknowledged:
  assumes "env ''STRIPE_WEBHOOK_SECRET'' = Some (c # cs)"
    and "construct_event (get_data req) (headers_get req ''Stripe-Signature'') (c # cs) = Inr event"
    and "(getitem event ''type'' :: 'e exn + json) = Inr kind"
    and "kind \<noteq> JStr ''checkout.session.completed''"
    and "kind \<noteq> JStr ''customer.subscription.created''"
  shows "stripe_webhook construct_event env req (w :: ('e, 'r) world)
           = (acknowledged, w\<lparr>log := log w @ [Info_unhandled_event_type kind]\<rparr>)
       \<and> status acknowledged = 200
       \<and> invoked_handler construct_event env req = None"
proof -
  have v: "verification construct_event env req = Verified event"
    using assms(1,2) by (rule verification_verified)
  have r: "registry kind = None"
    using assms(4,5) by (simp add: registry_def)
  have "handle_event event w = (Inr (), w\<lparr>log := log w @ [Info_unhandled_event_type kind]\<rparr>)"
    using assms(3) r by (simp add: handle_event_def logger_def)
  with v have "stripe_webhook construct_event env req w
                 = (acknowledged, w\<lparr>log := log w @ [Info_unhandled_event_type kind]\<rparr>)"
    by (simp add: stripe_webhook_def try_block_def)
  moreover have "invoked_handler construct_event env req = None"
    using v assms(3) r by (simp add: invoked_handler_def verified_event_def)
  ultimately show ?thesis
    by (simp add: acknowledged_def)
qed

theorem unknown_kind_acknowledged_witness:
  "stripe_webhook (\<lambda>p s k. Inr (JObj [(''id'', JStr ''evt_9''), (''type'', JStr ''invoice.paid'')]))
       (\<lambda>n. if n = ''STRIPE_WEBHOOK_SECRET'' then Some ''whsec'' else None)
       \<lparr>get_data = ''{}'', headers_get = (\<lambda>h. Some ''sig'')\<rparr>
       (\<lparr>log = [], records = ()\<rparr> :: (unit, unit) world)
     = (acknowledged, \<lparr>log = [Info_unhandled_event_type (JStr ''invoice.paid'')], records = ()\<rparr>)
   \<and> invoked_handler
       (\<lambda>p s k. Inr (JObj [(''id'', JStr ''evt_9''), (''type'', JStr ''invoice.paid'')]) :: unit + json)
       (\<lambda>n. if n = ''STRIPE_WEBHOOK_SECRET'' then Some ''whsec'' else None)
       \<lparr>get_data = ''{}'', headers_get = (\<lambda>h. Some ''sig'')\<rparr> = None"
  using unknown_kind_acknowledged
    [where env = "\<lambda>n. if n = ''STRIPE_WEBHOOK_SECRET'' then Some ''whsec'' else None"
       and c = "CHR ''w''" and cs = "''hsec''"
       and construct_event = "\<lambda>p s k. Inr (JObj [(''id'', JStr ''evt_9''), (''type'', JStr ''invoice.paid'')]) :: unit + json"
       and req = "\<lparr>get_data = ''{}'', headers_get = (\<lambda>h. Some ''sig'')\<rparr>"
       and event = "JObj [(''id'', JStr ''evt_9''), (''type'', JStr ''invoice.paid'')]"
       and kind = "JStr ''invoice.paid''"
       and w = "\<lparr>log = [], records = ()\<rparr> :: (unit, unit) world"]
  by simp

text \<open>
  Claim C5. Two requests that fail verification, for whatever reasons, get the same answer:
  status 400 and the body \<^verbatim>\<open>{'error': 'Webhook failed'}\<close>. The reason reaches the log only.
\<close>

theorem verification_failures_indistinguishable:
  assumes "env1 ''STRIPE_WEBHOOK_SECRET'' = Some (c1 # cs1)"
    and "construct_event1 (get_data req1) (headers_get req1 ''Stripe-Signature'') (c1 # cs1) = Inl e1"
    and "env2 ''STRIPE_WEBHOOK_SECRET'' = Some (c2 # cs2)"
    and "construct_event2 (get_data req2) (headers_get req2 ''Stripe-Signature'') (c2 # cs2) = Inl e2"
  shows "fst (stripe_webhook construct_event1 env1 req1 w1)
           = fst (stripe_webhook construct_event2 env2 req2 w2)
       \<and> fst (stripe_webhook construct_event1 env1 req1 w1)
           = \<lparr>status = 400, body = JObj [(''error'', JStr ''Webhook failed'')]\<rparr>"
proof -
  have "verification construct_event1 env1 req1 = Failed e1"
    using assms(1,2) by (rule verification_failed)
  then have a: "fst (stripe_webhook construct_event1 env1 req1 w1) = webhook_failed"
    by (simp add: stripe_webhook_failed)
  have "verification construct_event2 env2 req2 = Failed e2"
    using assms(3,4) by (rule verification_failed)
  then have b: "fst (stripe_webhook construct_event2 env2 req2 w2) = webhook_failed"
    by (simp add: stripe_webhook_failed)
  from a b show ?thesis
    by (simp add: webhook_failed_def)
qed

theorem verification_failures_indistinguishable_witness:
  "fst (stripe_webhook
       (\<lambda>p s k. case s of None \<Rightarrow> Inl MissingSignature | Some h \<Rightarrow> Inl SignatureMismatch)
       (\<lambda>n. if n = ''STRIPE_WEBHOOK_SECRET'' then Some ''whsec'' else None)
       \<lparr>get_data = ''{}'', headers_get = (\<lambda>h. None)\<rparr>
       (\<lparr>log = [], records = ()\<rparr> :: (verification_error, unit) world))
     = fst (stripe_webhook
       (\<lambda>p s k. case s of None \<Rightarrow> Inl MissingSignature | Some h \<Rightarrow> Inl SignatureMismatch)
       (\<lambda>n. if n = ''STRIPE_WEBHOOK_SECRET'' then Some ''whsec'' else None)
       \<lparr>get_data = ''{}'', headers_get = (\<lambda>h. Some ''t=1,v1=00'')\<rparr>
       (\<lparr>log = [], records = ()\<rparr> :: (verification_error, unit) world))"
  using verification_failures_indistinguishable
    [where ?env1.0 = "\<lambda>n. if n = ''STRIPE_WEBHOOK_SECRET'' then Some ''whsec'' else None"
       and ?c1.0 = "CHR ''w''" and ?cs1.0 = "''hsec''"
       and ?construct_event1.0 = "\<lambda>p s k. case s of None \<Rightarrow> Inl MissingSignature | Some h \<Rightarrow> Inl SignatureMismatch"
       and ?req1.0 = "\<lparr>get_data = ''{}'', headers_get = (\<lambda>h. None)\<rparr>"
       and ?e1.0 = MissingSignature
       and ?env2.0 = "\<lambda>n. if n = ''STRIPE_WEBHOOK_SECRET'' then Some ''whsec'' else None"
       and ?c2.0 = "CHR ''w''" and ?cs2.0 = "''hsec''"
       and ?construct_event2.0 = "\<lambda>p s k. case s of None \<Rightarrow> Inl MissingSignature | Some h \<Rightarrow> Inl SignatureMismatch"
       and ?req2.0 = "\<lparr>get_data = ''{}'', headers_get = (\<lambda>h. Some ''t=1,v1=00'')\<rparr>"
       and ?e2.0 = SignatureMismatch
       and ?w1.0 = "\<lparr>log = [], records = ()\<rparr> :: (verification_error, unit) world"
       and ?w2.0 = "\<lparr>log = [], records = ()\<rparr> :: (verification_error, unit) world"]
  by simp

text \<open>
  Claim C10. With \<^verbatim>\<open>STRIPE_SECRET_KEY\<close> unset or empty, loading the module raises
  \<^verbatim>\<open>ValueError\<close> and no request is served. The check does not read
  \<^verbatim>\<open>STRIPE_WEBHOOK_SECRET\<close>: a module whose key is set starts whatever the webhook secret
  is, and the route reads the secret from the environment when a request arrives.
\<close>

theorem missing_api_key_refuses_to_start:
  "(env ''STRIPE_SECRET_KEY'' = None \<or> env ''STRIPE_SECRET_KEY'' = Some [] \<longrightarrow>
      fst (module_init env w) = Inl (ValueError ''Stripe configuration missing'')
    \<and> fst (serve_webhook construct_event env req w)
        = Inl (ValueError ''Stripe configuration missing''))
   \<and> module_init (env(''STRIPE_WEBHOOK_SECRET'' := secret)) w = module_init env w
   \<and> (env ''STRIPE_SECRET_KEY'' = Some (c # cs) \<longrightarrow>
      serve_webhook construct_event env req w
        = (Inr (fst (stripe_webhook construct_event env req w)),
           snd (stripe_webhook construct_event env req w)))"
proof -
  have a: "fst (module_init env w) = Inl (ValueError ''Stripe configuration missing'')
         \<and> fst (serve_webhook construct_event env req w)
             = Inl (ValueError ''Stripe configuration missing'')"
    if "env ''STRIPE_SECRET_KEY'' = None \<or> env ''STRIPE_SECRET_KEY'' = Some []"
    using that by (auto simp add: module_init_def serve_webhook_def)
  have b: "module_init (env(''STRIPE_WEBHOOK_SECRET'' := secret)) w = module_init env w"
    by (simp add: module_init_def)
  have c: "serve_webhook construct_event env req w
        = (Inr (fst (stripe_webhook construct_event env req w)),
           snd (stripe_webhook construct_event env req w))"
    if "env ''STRIPE_SECRET_KEY'' = Some (c # cs)"
    using that by (simp add: module_init_def serve_webhook_def split: prod.splits)
  from a b c show ?thesis
    by blast
qed

theorem missing_api_key_refuses_to_start_witness:
  "fst (module_init (\<lambda>n. if n = ''STRIPE_WEBHOOK_SECRET'' then Some ''whsec'' else None)
         (\<lparr>log = [], records = ()\<rparr> :: (unit, unit) world))
     = Inl (ValueError ''Stripe configuration missing'')
   \<and> fst (serve_webhook (\<lambda>p s k. Inl ())
         (\<lambda>n. if n = ''STRIPE_WEBHOOK_SECRET'' then Some ''whsec'' else None)
         \<lparr>get_data = ''{}'', headers_get = (\<lambda>h. None)\<rparr>
         (\<lparr>log = [], records = ()\<rparr> :: (unit, unit) world))
     = Inl (ValueError ''Stripe configuration missing'')
   \<and> fst (serve_webhook (\<lambda>p s k. Inl ())
         (\<lambda>n. if n = ''STRIPE_SECRET_KEY'' then Some ''sk_test'' else None)
         \<lparr>get_data = ''{}'', headers_get = (\<lambda>h. None)\<rparr>
         (\<lparr>log = [], records = ()\<rparr> :: (unit, unit) world))
     = Inr acknowledged"
  using missing_api_key_refuses_to_start
    [where env = "\<lambda>n. if n = ''STRIPE_WEBHOOK_SECRET'' then Some ''whsec'' else None"
       and construct_event = "\<lambda>p s k. Inl ()"
       and req = "\<lparr>get_data = ''{}'', headers_get = (\<lambda>h. None)\<rparr>"
       and w = "\<lparr>log = [], records = ()\<rparr> :: (unit, unit) world"]
    missing_api_key_refuses_to_start
    [where env = "\<lambda>n. if n = ''STRIPE_SECRET_KEY'' then Some ''sk_test'' else None"
       and c = "CHR ''s''" and cs = "''k_test''"
       and construct_event = "\<lambda>p s k. Inl ()"
       and req = "\<lparr>get_data = ''{}'', headers_get = (\<lambda>h. None)\<rparr>"
       and w = "\<lparr>log = [], records = ()\<rparr> :: (unit, unit) world"]
  by (simp add: stripe_webhook_def try_block_def verification_def)

section \<open>Properties of the route with the verifier of the specification\<close>

lemma verify_accepts:
  assumes "verify sc now rawBody signatureHeader secret = Inr event"
  shows "event = decode sc rawBody \<and> signed sc secret rawBody signatureHeader"
  using assms
  by (auto simp add: verify_def signed_def split: if_splits option.splits)

lemma verify_rejects_before_decoding:
  assumes "verify sc now rawBody signatureHeader secret = Inl err"
  shows "verify (sc\<lparr>decode := d\<rparr>) now rawBody signatureHeader secret = Inl err"
  using assms
  by (auto simp add: verify_def split: if_splits option.splits)

lemma verification_of_call:
  assumes "env ''STRIPE_WEBHOOK_SECRET'' = Some (c # cs)"
  shows "verification construct_event env req
           = (case construct_event (get_data req) (headers_get req ''Stripe-Signature'') (c # cs) of
                Inl e \<Rightarrow> Failed e
              | Inr event \<Rightarrow> Verified event)"
  using assms by (simp add: verification_def)

lemma verify_signed_in_window:
  assumes "parse_header sc h = Some (ts, sigs)"
    and "mac sc (c # cs) rawBody \<in> set sigs"
    and "\<not> expired (tolerance sc) now ts"
  shows "verify sc now rawBody (Some h) (c # cs) = Inr (decode sc rawBody)"
  using assms by (simp add: verify_def)

lemma verify_unsigned:
  assumes "\<not> signed sc secret rawBody signatureHeader"
  shows "\<exists>err. verify sc now rawBody signatureHeader secret = Inl err"
  using assms
  by (auto simp add: verify_def signed_def split: option.splits)

text \<open>
  Claim C6 (as the code has it). While a webhook secret is configured, the route runs the
  verifier on the bytes of \<^verbatim>\<open>request.get_data()\<close> as they arrived, with the header and the
  secret. With the verifier of the specification behind line 167: a request whose header
  carries the keyed code of those bytes, inside the tolerance window, binds the parse of
  those same bytes as its event; a request whose header does not carry it binds no event
  and is answered with status 400; an event that is bound is the parse of the raw bytes of
  a signed request; and a request that binds no event is answered the same way whatever the
  parser would have made of its body, so the body is parsed after verification succeeds,
  never before. While no secret is configured, the route runs no verification.
\<close>

theorem verification_reads_raw_body:
  "(env ''STRIPE_WEBHOOK_SECRET'' = Some (c # cs) \<longrightarrow>
      verification (verify sc now) env req
        = (case verify sc now (get_data req) (headers_get req ''Stripe-Signature'') (c # cs) of
             Inl err \<Rightarrow> Failed err
           | Inr ev \<Rightarrow> Verified ev)
    \<and> (headers_get req ''Stripe-Signature'' = Some h \<and> parse_header sc h = Some (ts, sigs)
         \<and> mac sc (c # cs) (get_data req) \<in> set sigs \<and> \<not> expired (tolerance sc) now ts \<longrightarrow>
           verified_event (verify sc now) env req = Some (decode sc (get_data req)))
    \<and> (\<not> signed sc (c # cs) (get_data req) (headers_get req ''Stripe-Signature'') \<longrightarrow>
           verified_event (verify sc now) env req = None
         \<and> fst (stripe_webhook (verify sc now) env req w) = webhook_failed)
    \<and> (verified_event (verify sc now) env req = Some event \<longrightarrow>
           event = decode sc (get_data req)
         \<and> signed sc (c # cs) (get_data req) (headers_get req ''Stripe-Signature''))
    \<and> (verified_event (verify sc now) env req = None \<longrightarrow>
           stripe_webhook (verify (sc\<lparr>decode := d\<rparr>) now) env req w
             = stripe_webhook (verify sc now) env req w))
   \<and> (env ''STRIPE_WEBHOOK_SECRET'' = None \<or> env ''STRIPE_WEBHOOK_SECRET'' = Some [] \<longrightarrow>
      verification (verify sc now) env req = Skipped)"
proof -
  let ?hdr = "headers_get req ''Stripe-Signature''"
  have configured:
    "verification (verify sc now) env req
        = (case verify sc now (get_data req) ?hdr (c # cs) of
             Inl err \<Rightarrow> Failed err
           | Inr ev \<Rightarrow> Verified ev)
    \<and> (?hdr = Some h \<and> parse_header sc h = Some (ts, sigs)
         \<and> mac sc (c # cs) (get_data req) \<in> set sigs \<and> \<not> expired (tolerance sc) now ts \<longrightarrow>
           verified_event (verify sc now) env req = Some (decode sc (get_data req)))
    \<and> (\<not> signed sc (c # cs) (get_data req) ?hdr \<longrightarrow>
           verified_event (verify sc now) env req = None
         \<and> fst (stripe_webhook (verify sc now) env req w) = webhook_failed)
    \<and> (verified_event (verify sc now) env req = Some event \<longrightarrow>
           event = decode sc (get_data req) \<and> signed sc (c # cs) (get_data req) ?hdr)
    \<and> (verified_event (verify sc now) env req = None \<longrightarrow>
           stripe_webhook (verify (sc\<lparr>decode := d\<rparr>) now) env req w
             = stripe_webhook (verify sc now) env req w)"
    if secret: "env ''STRIPE_WEBHOOK_SECRET'' = Some (c # cs)"
  proof -
    have call: "verification (verify sc now) env req
        = (case verify sc now (get_data req) ?hdr (c # cs) of
             Inl err \<Rightarrow> Failed err
           | Inr ev \<Rightarrow> Verified ev)"
      using secret by (rule verification_of_call)
    have call': "verification (verify (sc\<lparr>decode := d\<rparr>) now) env req
        = (case verify (sc\<lparr>decode := d\<rparr>) now (get_data req) ?hdr (c # cs) of
             Inl err \<Rightarrow> Failed err
           | Inr ev \<Rightarrow> Verified ev)"
      using secret by (rule verification_of_call)
    have accepted: "verified_event (verify sc now) env req = Some (decode sc (get_data req))"
      if "?hdr = Some h" "parse_header sc h = Some (ts, sigs)"
        "mac sc (c # cs) (get_data req) \<in> set sigs" "\<not> expired (tolerance sc) now ts"
    proof -
      have "verify sc now (get_data req) (Some h) (c # cs) = Inr (decode sc (get_data req))"
        using that(2,3,4) by (rule verify_signed_in_window)
      with call that(1) show ?thesis
        by (simp add: verified_event_def)
    qed
    have rejected: "verified_event (verify sc now) env req = None
         \<and> fst (stripe_webhook (verify sc now) env req w) = webhook_failed"
      if unsigned: "\<not> signed sc (c # cs) (get_data req) ?hdr"
    proof -
      obtain err where "verify sc now (get_data req) ?hdr (c # cs) = Inl err"
        using verify_unsigned [OF unsigned] by blast
      with call have "verification (verify sc now) env req = Failed err"
        by simp
      then show ?thesis
        by (simp add: verified_event_def stripe_webhook_failed)
    qed
    have bound: "event = decode sc (get_data req) \<and> signed sc (c # cs) (get_data req) ?hdr"
      if "verified_event (verify sc now) env req = Some event"
    proof (cases "verify sc now (get_data req) ?hdr (c # cs)")
      case (Inl err)
      with call that show ?thesis
        by (simp add: verified_event_def)
    next
      case (Inr ev)
      with call that have "ev = event"
        by (simp add: verified_event_def)
      with Inr show ?thesis
        using verify_accepts by blast
    qed
    have unparsed: "stripe_webhook (verify (sc\<lparr>decode := d\<rparr>) now) env req w
             = stripe_webhook (verify sc now) env req w"
      if "verified_event (verify sc now) env req = None"
    proof (cases "verify sc now (get_data req) ?hdr (c # cs)")
      case (Inl err)
      then have "verify (sc\<lparr>decode := d\<rparr>) now (get_data req) ?hdr (c # cs) = Inl err"
        by (rule verify_rejects_before_decoding)
      with call' have "verification (verify (sc\<lparr>decode := d\<rparr>) now) env req = Failed err"
        by simp
      moreover from call Inl have "verification (verify sc now) env req = Failed err"
        by simp
      ultimately show ?thesis
        by (simp add: stripe_webhook_failed)
    next
      case (Inr ev)
      with call that show ?thesis
        by (simp add: verified_event_def)
    qed
    from call accepted rejected bound unparsed show ?thesis
      by blast
  qed
  have unconfigured: "verification (verify sc now) env req = Skipped"
    if "env ''STRIPE_WEBHOOK_SECRET'' = None \<or> env ''STRIPE_WEBHOOK_SECRET'' = Some []"
    using that by (rule verification_skipped)
  from configured unconfigured show ?thesis
    by blast
qed

theorem verification_reads_raw_body_witness:
  "verified_event
       (verify \<lparr>mac = (\<lambda>k b. k @ b), parse_header = (\<lambda>h. Some (Some 100, [h])),
                 decode = (\<lambda>b. JObj [(''type'', JStr b)]), tolerance = 300\<rparr> 200)
       (\<lambda>n. if n = ''STRIPE_WEBHOOK_SECRET'' then Some ''whsec'' else None)
       \<lparr>get_data = ''ping'', headers_get = (\<lambda>h. Some ''whsecping'')\<rparr>
     = Some (JObj [(''type'', JStr ''ping'')])
   \<and> signed \<lparr>mac = (\<lambda>k b. k @ b), parse_header = (\<lambda>h. Some (Some 100, [h])),
            decode = (\<lambda>b. JObj [(''type'', JStr b)]), tolerance = 300\<rparr>
       ''whsec'' ''ping'' (Some ''whsecping'')
   \<and> verified_event
       (verify \<lparr>mac = (\<lambda>k b. k @ b), parse_header = (\<lambda>h. Some (Some 100, [h])),
                 decode = (\<lambda>b. JObj [(''type'', JStr b)]), tolerance = 300\<rparr> 200)
       (\<lambda>n. if n = ''STRIPE_WEBHOOK_SECRET'' then Some ''whsec'' else None)
       \<lparr>get_data = ''pong'', headers_get = (\<lambda>h. Some ''whsecping'')\<rparr> = None
   \<and> fst (stripe_webhook
       (verify \<lparr>mac = (\<lambda>k b. k @ b), parse_header = (\<lambda>h. Some (Some 100, [h])),
                 decode = (\<lambda>b. JObj [(''type'', JStr b)]), tolerance = 300\<rparr> 200)
       (\<lambda>n. if n = ''STRIPE_WEBHOOK_SECRET'' then Some ''whsec'' else None)
       \<lparr>get_data = ''pong'', headers_get = (\<lambda>h. Some ''whsecping'')\<rparr>
       (\<lparr>log = [], records = ()\<rparr> :: (verification_error, unit) world)) = webhook_failed
   \<and> stripe_webhook
       (verify \<lparr>mac = (\<lambda>k b. k @ b), parse_header = (\<lambda>h. Some (Some 100, [h])),
                 decode = (\<lambda>b. JNull), tolerance = 300\<rparr> 200)
       (\<lambda>n. if n = ''STRIPE_WEBHOOK_SECRET'' then Some ''whsec'' else None)
       \<lparr>get_data = ''pong'', headers_get = (\<lambda>h. Some ''whsecping'')\<rparr>
       (\<lparr>log = [], records = ()\<rparr> :: (verification_error, unit) world)
     = stripe_webhook
       (verify \<lparr>mac = (\<lambda>k b. k @ b), parse_header = (\<lambda>h. Some (Some 100, [h])),
                 decode = (\<lambda>b. JObj [(''type'', JStr b)]), tolerance = 300\<rparr> 200)
       (\<lambda>n. if n = ''STRIPE_WEBHOOK_SECRET'' then Some ''whsec'' else None)
       \<lparr>get_data = ''pong'', headers_get = (\<lambda>h. Some ''whsecping'')\<rparr>
       \<lparr>log = [], records = ()\<rparr>
   \<and> verification
       (verify \<lparr>mac = (\<lambda>k b. k @ b), parse_header = (\<lambda>h. Some (Some 100, [h])),
                 decode = (\<lambda>b. JObj [(''type'', JStr b)]), tolerance = 300\<rparr> 200)
       (\<lambda>n. None)
       \<lparr>get_data = ''ping'', headers_get = (\<lambda>h. Some ''whsecping'')\<rparr> = Skipped"
  using verification_reads_raw_body
    [where env = "\<lambda>n. if n = ''STRIPE_WEBHOOK_SECRET'' then Some ''whsec'' else None"
       and c = "CHR ''w''" and cs = "''hsec''"
       and sc = "\<lparr>mac = (\<lambda>k b. k @ b), parse_header = (\<lambda>h. Some (Some 100, [h])),
                  decode = (\<lambda>b. JObj [(''type'', JStr b)]), tolerance = 300\<rparr>"
       and now = 200 and h = "''whsecping''" and ts = "Some 100" and sigs = "[''whsecping'']"
       and req = "\<lparr>get_data = ''ping'', headers_get = (\<lambda>h. Some ''whsecping'')\<rparr>"
       and event = "JObj [(''type'', JStr ''ping'')]"
       and d = "\<lambda>b. JNull"
       and w = "\<lparr>log = [], records = ()\<rparr> :: (verification_error, unit) world"]
    verification_reads_raw_body
    [where env = "\<lambda>n. if n = ''STRIPE_WEBHOOK_SECRET'' then Some ''whsec'' else None"
       and c = "CHR ''w''" and cs = "''hsec''"
       and sc = "\<lparr>mac = (\<lambda>k b. k @ b), parse_header = (\<lambda>h. Some (Some 100, [h])),
                  decode = (\<lambda>b. JObj [(''type'', JStr b)]), tolerance = 300\<rparr>"
       and now = 200 and h = "''whsecping''" and ts = "Some 100" and sigs = "[''whsecping'']"
       and req = "\<lparr>get_data = ''pong'', headers_get = (\<lambda>h. Some ''whsecping'')\<rparr>"
       and event = JNull
       and d = "\<lambda>b. JNull"
       and w = "\<lparr>log = [], records = ()\<rparr> :: (verification_error, unit) world"]
    verification_reads_raw_body
    [where env = "\<lambda>n. None"
       and c = "CHR ''w''" and cs = "''hsec''"
       and sc = "\<lparr>mac = (\<lambda>k b. k @ b), parse_header = (\<lambda>h. Some (Some 100, [h])),
                  decode = (\<lambda>b. JObj [(''type'', JStr b)]), tolerance = 300\<rparr>"
       and now = 200 and h = "''whsecping''" and ts = "Some 100" and sigs = "[''whsecping'']"
       and req = "\<lparr>get_data = ''ping'', headers_get = (\<lambda>h. Some ''whsecping'')\<rparr>"
       and event = JNull
       and d = "\<lambda>b. JNull"
       and w = "\<lparr>log = [], records = ()\<rparr> :: (verification_error, unit) world"]
  by (simp add: signed_def expired_def)

text \<open>
  Claim C6 as stated fails for a request that arrives while no secret is configured: the
  route runs no verification over its body. The header of this request is not the keyed
  code of its body, and the request is acknowledged.
\<close>

theorem unconfigured_secret_verifies_nothing:
  "verification
       (verify \<lparr>mac = (\<lambda>k b. k @ b), parse_header = (\<lambda>h. Some (Some 100, [h])),
                 decode = (\<lambda>b. JObj [(''type'', JStr b)]), tolerance = 300\<rparr> 200)
       (\<lambda>n. if n = ''STRIPE_WEBHOOK_SECRET'' then Some [] else None)
       \<lparr>get_data = ''pong'', headers_get = (\<lambda>h. Some ''whsecping'')\<rparr> = Skipped
   \<and> fst (stripe_webhook
       (verify \<lparr>mac = (\<lambda>k b. k @ b), parse_header = (\<lambda>h. Some (Some 100, [h])),
                 decode = (\<lambda>b. JObj [(''type'', JStr b)]), tolerance = 300\<rparr> 200)
       (\<lambda>n. if n = ''STRIPE_WEBHOOK_SECRET'' then Some [] else None)
       \<lparr>get_data = ''pong'', headers_get = (\<lambda>h. Some ''whsecping'')\<rparr>
       (\<lparr>log = [], records = ()\<rparr> :: (verification_error, unit) world)) = acknowledged"
  by (simp add: stripe_webhook_def try_block_def verification_def)



lemma accepted_inside_window:
  "fst (stripe_webhook
       (verify \<lparr>mac = (\<lambda>k b. k @ b), parse_header = (\<lambda>h. Some (Some 100, [h])),
                 decode = (\<lambda>b. JObj [(''type'', JStr b)]), tolerance = 300\<rparr> 400)
       (\<lambda>n. if n = ''STRIPE_WEBHOOK_SECRET'' then Some ''whsec'' else None)
       \<lparr>get_data = ''ping'', headers_get = (\<lambda>h. Some ''whsecping'')\<rparr>
       (\<lparr>log = [], records = ()\<rparr> :: (verification_error, unit) world)) = acknowledged"
  by (simp add: stripe_webhook_def try_block_def verification_def verify_def expired_def
      handle_event_def registry_def)

end
